theory Spec2Isabelle
  imports Main
begin

section \<open>Data model\<close>

text \<open>
  The gateway client of \<^verbatim>\<open>structures/client\<close> (class \<^verbatim>\<open>Client\<close>) together with the
  process-wide \<^verbatim>\<open>config\<close> object it reads and mutates. One client instance is modelled;
  its mutable fields and the fields of \<^verbatim>\<open>config\<close> form one state record that every
  operation takes and returns.

  JavaScript values are modelled as follows. A field of the client that may be
  \<^verbatim>\<open>undefined\<close> or \<^verbatim>\<open>null\<close> is an \<open>option\<close> (\<open>None\<close> for both; the code tells them
  apart nowhere). The alias \<^verbatim>\<open>vanity_url_code\<close> of a guild keeps \<^verbatim>\<open>undefined\<close>, \<^verbatim>\<open>null\<close> and
  a string apart, since \<^verbatim>\<open>!==\<close> and \<^verbatim>\<open>===\<close> compare it. Clock readings (\<^verbatim>\<open>Date.now()\<close>) and
  durations are natural numbers of milliseconds. Arrays live in an explicit store, since
  \<^verbatim>\<open>config.guilds = this.rotatedGuilds\<close> makes two names denote one array.
\<close>

datatype vanity_code = VUndefined | VNull | VStr string

record guild =
  id' :: string
  name :: string
  vanity_url_code :: vanity_code

record user =
  username :: string

datatype ConnectionState =
  IDLE | CONNECTING | CONNECTED | IDENTIFYING | RESUMING | DISCONNECTED | DISCOVERING

datatype readyState = WS_CONNECTING | WS_OPEN | WS_CLOSING | WS_CLOSED

type_synonym addr = nat

text \<open>
  An array element is \<open>Some g\<close> for a guild id and \<open>None\<close> for \<^verbatim>\<open>undefined\<close>, which
  \<^verbatim>\<open>shift()\<close> yields on an empty array and \<^verbatim>\<open>push\<close> then stores.
\<close>

type_synonym array = "string option list"

record sys =
  \<comment> \<open>fields of the client\<close>
  token :: string
  user_of :: "user option"
  guilds :: "(string \<rightharpoonup> guild) option"
  helloTimeout :: bool
  heartbeatHandler :: "nat option"
  sameGuildIntervals :: "string \<rightharpoonup> nat"
  connectionStartTime :: "nat option"
  lastHeartbeatAckTime :: "nat option"
  heartbeatInterval :: "nat option"
  state :: "ConnectionState option"
  sessionId :: "string option"
  attempts :: "nat option"
  sequence :: "int option"
  rotatedGuilds :: addr
  ws :: "readyState option"
  \<comment> \<open>fields of config\<close>
  config_guilds :: addr
  config_rotateGuilds :: bool
  config_ignoreHostGuilds :: bool
  config_retries :: int
  config_sameGuildSnipeTimeout :: nat
  config_exitOnSnipe :: bool
  config_webhook :: string
  \<comment> \<open>the arrays that \<^verbatim>\<open>config.guilds\<close> and \<^verbatim>\<open>this.rotatedGuilds\<close> refer to\<close>
  heap :: "addr \<Rightarrow> array"

datatype jsvalue = Undefined | Null | Str string | Num int

text \<open>
  The response of \<^verbatim>\<open>request\<close> as \<^verbatim>\<open>snipe\<close> reads it: the status code, the body as
  \<^verbatim>\<open>JSON.parse\<close> returns it (\<open>None\<close> when it throws), and the \<^verbatim>\<open>timeTaken\<close> property
  (\<open>None\<close> when the response object carries none).
\<close>

record json =
  retry_after :: "int option"
  code :: jsvalue
  message :: jsvalue

record response =
  statusCode :: nat
  body :: "json option"
  timeTaken :: "nat option"

datatype level = Debug | Info | Warn | Error | Success

text \<open>A log line is recorded by its kind and the values it interpolates.\<close>

datatype logmsg =
    AttemptingToSnipe vanity_code
  | NoMoreGuilds
  | RotatingGuilds
  | Ratelimited int vanity_code
  | FailedSniping vanity_code int
  | SnipedVanity vanity_code nat
  | FailedToSnipe vanity_code nat jsvalue
  | VanityChange string vanity_code vanity_code
  | IgnoringVanityChange string
  | OnTimeout string nat
  | GuildDeleted string
  | IgnoringGuildDeletion string
  | Queued string vanity_code
  | LoggedIn string nat
  | LoggedInByResuming nat
  | FailedToHandleMessage
  | ReceivedHello
  | StartingHeartbeat
  | Pong
  | SendingIdentify
  | AttemptingToResume
  | ReconnectingSocket
  | SocketOpened

datatype sent =
    SentIdentify string
  | SentResume string "string option" "int option"

datatype effect =
    Log level logmsg
  | Request "string option" vanity_code string
  | Sleep int
  | WebhookSend string string
  | SnipeCall vanity_code string
  | Send sent
  | WsClose nat
  | NewWebSocket
  | SetTimeout
  | ClearTimeout
  | SetInterval nat
  | ClearInterval

datatype exn = TypeError | SyntaxError

text \<open>
  How a call ends: it returns, it ends the process with an exit code, it throws, or it
  is left waiting for a response that never comes.
\<close>

datatype completion = Returned | Exited nat | Threw exn | Pending

type_synonym result = "sys \<times> effect list \<times> completion"

section \<open>JavaScript helpers\<close>

definition truthy_code :: "vanity_code \<Rightarrow> bool" where
  "truthy_code v = (case v of VUndefined \<Rightarrow> False | VNull \<Rightarrow> False | VStr x \<Rightarrow> x \<noteq> [])"

definition truthy_nat :: "nat option \<Rightarrow> bool" where
  "truthy_nat v = (case v of None \<Rightarrow> False | Some x \<Rightarrow> x \<noteq> 0)"

definition truthy_int :: "int option \<Rightarrow> bool" where
  "truthy_int v = (case v of None \<Rightarrow> False | Some x \<Rightarrow> x \<noteq> 0)"

text \<open>An alias as a JavaScript value, and as a template literal prints it.\<close>

definition js_of :: "vanity_code \<Rightarrow> jsvalue" where
  "js_of v = (case v of VUndefined \<Rightarrow> Undefined | VNull \<Rightarrow> Null | VStr x \<Rightarrow> Str x)"

definition template :: "vanity_code \<Rightarrow> string" where
  "template v = (case v of VUndefined \<Rightarrow> ''undefined'' | VNull \<Rightarrow> ''null'' | VStr x \<Rightarrow> x)"

text \<open>\<^verbatim>\<open>xs.shift()\<close> and \<^verbatim>\<open>xs.push(x)\<close> on the array at an address of the store.\<close>

definition shift :: "(addr \<Rightarrow> array) \<Rightarrow> addr \<Rightarrow> string option \<times> (addr \<Rightarrow> array)" where
  "shift h a = (case h a of [] \<Rightarrow> (None, h) | x # xs \<Rightarrow> (x, h(a := xs)))"

definition push :: "(addr \<Rightarrow> array) \<Rightarrow> addr \<Rightarrow> string option \<Rightarrow> (addr \<Rightarrow> array)" where
  "push h a x = h(a := h a @ [x])"

text \<open>\<^verbatim>\<open>xs[0]\<close>: the first element, \<^verbatim>\<open>undefined\<close> on an empty array.\<close>

definition first :: "array \<Rightarrow> string option" where
  "first xs = (case xs of [] \<Rightarrow> None | x # _ \<Rightarrow> x)"

text \<open>Prefix a result with the effects that happened before it.\<close>

definition after :: "effect list \<Rightarrow> result \<Rightarrow> result" where
  "after tr r = (case r of (s, tr', c) \<Rightarrow> (s, tr @ tr', c))"

section \<open>The claim race: \<^verbatim>\<open>Client.snipe\<close>\<close>

text \<open>
  \<^verbatim>\<open>snipe(vanity, id, tries)\<close>. The responses that \<^verbatim>\<open>request\<close> resolves to are given as
  a list, one consumed by each request; on the empty list the request never resolves.
  \<open>now\<close> is the clock reading of \<^verbatim>\<open>new Date()\<close> at the end of the function; the expiry
  of the cool-down is that reading plus the configured duration, which is what
  \<^verbatim>\<open>setMilliseconds\<close> yields while the local offset to UTC does not change in between.
  \<^verbatim>\<open>tries++\<close> passes the value of \<open>tries\<close> before the increment to the recursive call.
\<close>

fun snipe :: "nat \<Rightarrow> sys \<Rightarrow> vanity_code \<Rightarrow> string \<Rightarrow> int \<Rightarrow> response list \<Rightarrow> result" where
  "snipe now s vanity ident tries resps =
    (if (\<not> config_rotateGuilds s \<and> heap s (config_guilds s) = []) \<or>
        (config_rotateGuilds s \<and> heap s (config_guilds s) = [] \<and> heap s (rotatedGuilds s) = [])
     then (s, [Log Info (AttemptingToSnipe vanity), Log Warn NoMoreGuilds], Exited 0)
     else
       let rot = (heap s (config_guilds s) = [] \<and> config_rotateGuilds s);
           s1 = (if rot then s\<lparr>config_guilds := rotatedGuilds s\<rparr> else s);
           tr1 = [Log Info (AttemptingToSnipe vanity)] @
                 (if rot then [Log Info RotatingGuilds] else []) @
                 [Request (first (heap s1 (config_guilds s1))) vanity (token s1)]
       in case resps of
         [] \<Rightarrow> (s1, tr1, Pending)
       | data # rest \<Rightarrow>
          (case body data of
             None \<Rightarrow> (s1, tr1, Threw SyntaxError)
           | Some js \<Rightarrow>
              if statusCode data = 429 \<and> truthy_int (retry_after js) then
                let tr2 = tr1 @ [Log Warn (Ratelimited (the (retry_after js)) vanity),
                                 Sleep (the (retry_after js))]
                in if config_retries s1 < tries
                   then after tr2 (snipe now s1 vanity ident tries rest)
                   else (s1, tr2 @ [Log Info (FailedSniping vanity (config_retries s1))], Returned)
              else if code js = js_of vanity then
                let (x, h1) = shift (heap s1) (config_guilds s1);
                    s2 = s1\<lparr>heap := push h1 (rotatedGuilds s1) x\<rparr>
                in (case timeTaken data of
                      None \<Rightarrow> (s2, tr1, Threw TypeError)
                    | Some ms \<Rightarrow>
                       let tr2 = tr1 @ [Log Success (SnipedVanity vanity ms),
                                        WebhookSend (config_webhook s2)
                                          (''Sniped https://discord.gg/'' @ template vanity)]
                       in if config_exitOnSnipe s2 then (s2, tr2, Exited 0)
                          else (s2\<lparr>sameGuildIntervals :=
                                    (sameGuildIntervals s2)
                                      (ident \<mapsto> now + config_sameGuildSnipeTimeout s2)\<rparr>,
                                tr2, Returned))
              else
                (case timeTaken data of
                   None \<Rightarrow> (s1, tr1, Threw TypeError)
                 | Some ms \<Rightarrow>
                    (s1\<lparr>sameGuildIntervals :=
                          (sameGuildIntervals s1)
                            (ident \<mapsto> now + config_sameGuildSnipeTimeout s1)\<rparr>,
                     tr1 @ [Log Warn (FailedToSnipe vanity ms (message js))], Returned))))"

declare snipe.simps [simp del]

text \<open>
  The active pool and the rotated-back queue: the arrays that \<^verbatim>\<open>config.guilds\<close> and
  \<^verbatim>\<open>this.rotatedGuilds\<close> denote in a state.
\<close>

definition pool :: "sys \<Rightarrow> array" where
  "pool s = heap s (config_guilds s)"

definition rotated :: "sys \<Rightarrow> array" where
  "rotated s = heap s (rotatedGuilds s)"

text \<open>
  The array that \<^verbatim>\<open>config.guilds\<close> denotes when the request is issued: the rotated-back
  array when the pool was empty and \<^verbatim>\<open>config.rotateGuilds\<close> refilled it, the array it
  denoted before otherwise.
\<close>

definition active :: "sys \<Rightarrow> addr" where
  "active s = (if heap s (config_guilds s) = [] \<and> config_rotateGuilds s
               then rotatedGuilds s else config_guilds s)"

text \<open>
  A response makes \<^verbatim>\<open>snipe\<close> take its success branch: the body parses, the rate-limit
  test fails and \<^verbatim>\<open>json.code === vanity\<close>.
\<close>

definition succeeds :: "vanity_code \<Rightarrow> response \<Rightarrow> bool" where
  "succeeds vanity data =
     (case body data of
        None \<Rightarrow> False
      | Some js \<Rightarrow> \<not> (statusCode data = 429 \<and> truthy_int (retry_after js)) \<and> code js = js_of vanity)"

text \<open>
  The state after the field initialisers of a new client, for a token and the array
  \<^verbatim>\<open>config.guilds\<close> starts with; \<^verbatim>\<open>this.rotatedGuilds\<close> is a fresh empty array. The other
  values of \<^verbatim>\<open>config\<close> are set by record update where an example needs them.
\<close>

definition fresh :: "string \<Rightarrow> array \<Rightarrow> sys" where
  "fresh tok gs =
     \<lparr>token = tok, user_of = None, guilds = None, helloTimeout = False,
      heartbeatHandler = None, sameGuildIntervals = Map.empty, connectionStartTime = None,
      lastHeartbeatAckTime = None, heartbeatInterval = None, state = None, sessionId = None,
      attempts = None, sequence = None, rotatedGuilds = 1, ws = None,
      config_guilds = 0, config_rotateGuilds = False, config_ignoreHostGuilds = False,
      config_retries = 0, config_sameGuildSnipeTimeout = 0, config_exitOnSnipe = False,
      config_webhook = [], heap = (\<lambda>_. [])(0 := gs)\<rparr>"

section \<open>The watch set: \<^verbatim>\<open>Client.onDispatch\<close>\<close>

text \<open>
  A dispatch frame by its event name \<^verbatim>\<open>payload.t\<close> with the data \<^verbatim>\<open>payload.d\<close> the handler
  of that event reads: session id, user and guilds for \<^verbatim>\<open>READY\<close>, the guild for
  \<^verbatim>\<open>GUILD_UPDATE\<close>, \<^verbatim>\<open>d.guild_id\<close> for \<^verbatim>\<open>GUILD_DELETE\<close>, the guild or \<^verbatim>\<open>null\<close> for
  \<^verbatim>\<open>GUILD_CREATE\<close>. Any other event name is \<open>UNHANDLED\<close>.
\<close>

datatype event =
    READY string user "guild list"
  | GUILD_UPDATE guild
  | GUILD_DELETE string
  | GUILD_CREATE "guild option"
  | RESUMED
  | UNHANDLED

text \<open>The loop of \<^verbatim>\<open>READY\<close> over \<^verbatim>\<open>payload.d.guilds\<close>.\<close>

fun ready_guilds :: "guild list \<Rightarrow> (string \<rightharpoonup> guild) \<Rightarrow> (string \<rightharpoonup> guild)" where
  "ready_guilds [] m = m"
| "ready_guilds (g # gs) m =
     ready_guilds gs (if \<not> truthy_code (vanity_url_code g) then m else m(id' g \<mapsto> g))"

text \<open>
  \<^verbatim>\<open>onDispatch(payload)\<close>, with \<open>now\<close> the reading of \<^verbatim>\<open>Date.now()\<close>. The call
  \<^verbatim>\<open>this.snipe(vanity, id)\<close> is recorded as the effect \<open>SnipeCall vanity id\<close>: \<^verbatim>\<open>snipe\<close> is
  asynchronous and is not awaited. Reading \<^verbatim>\<open>this.guilds\<close> before \<^verbatim>\<open>READY\<close> has set it
  throws a \<^verbatim>\<open>TypeError\<close>.
\<close>

fun onDispatch :: "nat \<Rightarrow> sys \<Rightarrow> event \<Rightarrow> result" where
  "onDispatch now s (READY session_id u gs) =
     (let m = ready_guilds gs Map.empty
      in (s\<lparr>sessionId := Some session_id, user_of := Some u, guilds := Some m,
            state := Some CONNECTED, attempts := Some 0\<rparr>,
          [Log Success (LoggedIn (username u) (card (dom m)))], Returned))"
| "onDispatch now s (GUILD_UPDATE g) =
     (case guilds s of
        None \<Rightarrow> (s, [], Threw TypeError)
      | Some m \<Rightarrow>
         let persisted = m (id' g);
             interval = sameGuildIntervals s (id' g);
             s1 = s\<lparr>guilds := Some (m(id' g \<mapsto> g))\<rparr>
         in (case persisted of
               None \<Rightarrow> (s1, [], Returned)
             | Some p \<Rightarrow>
                if vanity_url_code p \<noteq> vanity_url_code g then
                  let tr = [Log Info (VanityChange (name g) (vanity_url_code p) (vanity_url_code g))]
                  in if config_ignoreHostGuilds s1 \<and> Some (id' g) \<in> set (heap s1 (config_guilds s1))
                     then (s1, tr @ [Log Info (IgnoringVanityChange (name g))], Returned)
                     else if \<not> truthy_nat interval \<or> (truthy_nat interval \<and> the interval \<le> now)
                     then (s1\<lparr>sameGuildIntervals := (sameGuildIntervals s1)(id' g := None)\<rparr>,
                           tr @ [SnipeCall (vanity_url_code p) (id' g)], Returned)
                     else (s1, tr @ [Log Warn (OnTimeout (name g) (the interval - now))], Returned)
                else (s1, [], Returned)))"
| "onDispatch now s (GUILD_DELETE guild_id) =
     (case guilds s of
        None \<Rightarrow> (s, [], Threw TypeError)
      | Some m \<Rightarrow>
         (case m guild_id of
            None \<Rightarrow> (s, [], Returned)
          | Some g \<Rightarrow>
             let interval = sameGuildIntervals s (id' g);
                 s1 = s\<lparr>guilds := Some (m(id' g := None))\<rparr>;
                 tr = [Log Info (GuildDeleted (name g))]
             in if config_ignoreHostGuilds s1 \<and> Some (id' g) \<in> set (heap s1 (config_guilds s1))
                then (s1, tr @ [Log Info (IgnoringGuildDeletion (name g))], Returned)
                else if \<not> truthy_nat interval \<or> (truthy_nat interval \<and> the interval \<le> now)
                then (s1\<lparr>sameGuildIntervals := (sameGuildIntervals s1)(id' g := None)\<rparr>,
                      tr @ [SnipeCall (vanity_url_code g) (id' g)], Returned)
                else (s1, tr @ [Log Warn (OnTimeout (name g) (the interval - now))], Returned)))"
| "onDispatch now s (GUILD_CREATE d) =
     (case d of
        None \<Rightarrow> (s, [], Returned)
      | Some g \<Rightarrow>
         if \<not> truthy_code (vanity_url_code g) then (s, [], Returned)
         else
           let tr = [Log Info (Queued (name g) (vanity_url_code g))]
           in (case guilds s of
                 None \<Rightarrow> (s, tr, Threw TypeError)
               | Some m \<Rightarrow> (s\<lparr>guilds := Some (m(id' g \<mapsto> g))\<rparr>, tr, Returned)))"
| "onDispatch now s RESUMED =
     (let s1 = s\<lparr>state := Some CONNECTED\<rparr>
      in (case guilds s1 of
            None \<Rightarrow> (s1, [], Threw TypeError)
          | Some m \<Rightarrow>
             (s1\<lparr>attempts := Some 0\<rparr>, [Log Success (LoggedInByResuming (card (dom m)))],
              Returned)))"
| "onDispatch now s UNHANDLED = (s, [], Returned)"

text \<open>The entry of the watch set for a resource id, and the calls of \<^verbatim>\<open>snipe\<close> in a trace.\<close>

definition watched :: "sys \<Rightarrow> string \<Rightarrow> guild option" where
  "watched s k = (case guilds s of None \<Rightarrow> None | Some m \<Rightarrow> m k)"

fun snipe_calls :: "effect list \<Rightarrow> (vanity_code \<times> string) list" where
  "snipe_calls [] = []"
| "snipe_calls (SnipeCall v i # es) = (v, i) # snipe_calls es"
| "snipe_calls (e # es) = snipe_calls es"

text \<open>
  Two properties of a watch set: every entry is stored under the id of its guild, and
  every entry has a non-empty alias.
\<close>

definition keyed :: "sys \<Rightarrow> bool" where
  "keyed s = (\<forall>k g. watched s k = Some g \<longrightarrow> id' g = k)"

definition aliased :: "sys \<Rightarrow> bool" where
  "aliased s = (\<forall>k g. watched s k = Some g \<longrightarrow> truthy_code (vanity_url_code g))"

section \<open>Resume eligibility: \<^verbatim>\<open>Client.canResume\<close>\<close>

text \<open>
  The getter \<^verbatim>\<open>canResume\<close>. The constant \<^verbatim>\<open>HEARTBEAT_MAX_RESUME_THRESHOLD\<close> of
  \<^verbatim>\<open>~/constants\<close> is a parameter, \<open>now\<close> is the reading of \<^verbatim>\<open>Date.now()\<close>.
\<close>

definition canResume :: "nat \<Rightarrow> nat \<Rightarrow> sys \<Rightarrow> bool" where
  "canResume HEARTBEAT_MAX_RESUME_THRESHOLD now s =
     (let threshold =
        (case lastHeartbeatAckTime s of
           None \<Rightarrow> True
         | Some t \<Rightarrow> t = 0 \<or> int now - int t \<le> int HEARTBEAT_MAX_RESUME_THRESHOLD)
      in sessionId s \<noteq> None \<and> threshold)"

section \<open>Inbound frames: \<^verbatim>\<open>Client.onMessage\<close>\<close>

text \<open>
  A parsed frame: its sequence number \<^verbatim>\<open>payload.s\<close> and its opcode \<^verbatim>\<open>payload.op\<close> with the
  data the handler of that opcode reads (the heartbeat interval of \<^verbatim>\<open>HELLO\<close>, the flag of
  \<^verbatim>\<open>INVALID_SESSION\<close>, the event of \<^verbatim>\<open>DISPATCH\<close>). \<open>OTHER_OP\<close> is any opcode the switch
  has no case for.
\<close>

datatype operation =
    HELLO nat
  | HEARTBEAT_ACK
  | INVALID_SESSION bool
  | RECONNECT
  | DISPATCH event
  | OTHER_OP

record payload =
  payload_s :: "int option"
  payload_op :: operation

text \<open>Run a continuation on the state of a result that returned.\<close>

definition and_then :: "result \<Rightarrow> (sys \<Rightarrow> result) \<Rightarrow> result" where
  "and_then r f = (case r of (s, tr, Returned) \<Rightarrow> after tr (f s) | _ \<Rightarrow> r)"

definition broadcast :: "sys \<Rightarrow> sent \<Rightarrow> result" where
  "broadcast s x =
     (case ws s of
        None \<Rightarrow> (s, [], Threw TypeError)
      | Some r \<Rightarrow> if r \<noteq> WS_OPEN then (s, [], Returned) else (s, [Send x], Returned))"

definition identify :: "sys \<Rightarrow> result" where
  "identify s =
     (let s1 = s\<lparr>sequence := Some 0, sessionId := None, state := Some IDENTIFYING\<rparr>
      in after [Log Debug SendingIdentify] (broadcast s1 (SentIdentify (token s1))))"

definition resume :: "sys \<Rightarrow> result" where
  "resume s =
     (let s1 = s\<lparr>state := Some RESUMING\<rparr>
      in after [Log Info AttemptingToResume]
           (broadcast s1 (SentResume (token s1) (sessionId s1) (sequence s1))))"

text \<open>
  \<^verbatim>\<open>onOpen()\<close>, the handler of the socket's \<^verbatim>\<open>open\<close> event: it decides between resuming
  and identifying and then stamps \<^verbatim>\<open>lastHeartbeatAckTime\<close> with the clock reading taken
  before the decision.
\<close>

definition onOpen :: "nat \<Rightarrow> nat \<Rightarrow> sys \<Rightarrow> result" where
  "onOpen HEARTBEAT_MAX_RESUME_THRESHOLD now s =
     (let s1 = s\<lparr>state := Some CONNECTED\<rparr>
      in after [Log Debug SocketOpened]
           (and_then
              (if canResume HEARTBEAT_MAX_RESUME_THRESHOLD now s1 then resume s1 else identify s1)
              (\<lambda>s2. (s2\<lparr>lastHeartbeatAckTime := Some now\<rparr>, [], Returned))))"

definition destroy :: "sys \<Rightarrow> nat \<Rightarrow> result" where
  "destroy s c =
     (case ws s of
        None \<Rightarrow> (s, [], Threw TypeError)
      | Some _ \<Rightarrow> (s\<lparr>ws := None, sessionId := None\<rparr>, [WsClose c], Returned))"

text \<open>\<^verbatim>\<open>this.attempts++\<close> leaves an \<^verbatim>\<open>undefined\<close> counter not a number (\<open>None\<close>).\<close>

definition createSocket :: "nat \<Rightarrow> sys \<Rightarrow> result" where
  "createSocket now s =
     (if state s = Some CONNECTED \<or> state s = Some CONNECTING then (s, [], Returned)
      else
        (s\<lparr>attempts := map_option Suc (attempts s), connectionStartTime := Some now,
           helloTimeout := True, ws := Some WS_CONNECTING\<rparr>,
         (if ws s = Some WS_OPEN then [WsClose 1000] else []) @ [SetTimeout, NewWebSocket],
         Returned))"

definition reconnect :: "nat \<Rightarrow> sys \<Rightarrow> result" where
  "reconnect now s =
     after [Log Info ReconnectingSocket]
       (and_then (destroy s 4444) (\<lambda>s1. createSocket now (s1\<lparr>state := Some DISCOVERING\<rparr>)))"

definition clearHelloTimeout :: "sys \<Rightarrow> result" where
  "clearHelloTimeout s =
     (if \<not> helloTimeout s then (s, [], Returned)
      else (s\<lparr>helloTimeout := False\<rparr>, [ClearTimeout], Returned))"

definition stopHeartbeat :: "sys \<Rightarrow> result" where
  "stopHeartbeat s = (s\<lparr>heartbeatHandler := None\<rparr>, [ClearInterval], Returned)"

text \<open>The running heartbeat timer is recorded by the interval it was started with.\<close>

definition startHeartbeat :: "sys \<Rightarrow> result" where
  "startHeartbeat s =
     after [Log Debug StartingHeartbeat]
       (and_then (if heartbeatHandler s \<noteq> None then stopHeartbeat s else (s, [], Returned))
          (\<lambda>s1. case heartbeatInterval s1 of
                  None \<Rightarrow> (s1\<lparr>heartbeatHandler := Some 1\<rparr>, [SetInterval 1], Returned)
                | Some n \<Rightarrow> (s1\<lparr>heartbeatHandler := Some n\<rparr>, [SetInterval n], Returned)))"

definition onHello :: "sys \<Rightarrow> nat \<Rightarrow> result" where
  "onHello s heartbeat_interval =
     after [Log Debug ReceivedHello]
       (startHeartbeat (s\<lparr>heartbeatInterval := Some heartbeat_interval\<rparr>))"

text \<open>The \<^verbatim>\<open>switch (payload.op)\<close> of \<^verbatim>\<open>onMessage\<close>.\<close>

fun handle_op :: "nat \<Rightarrow> sys \<Rightarrow> operation \<Rightarrow> result" where
  "handle_op now s (HELLO heartbeat_interval) =
     and_then (clearHelloTimeout s) (\<lambda>s1. onHello s1 heartbeat_interval)"
| "handle_op now s HEARTBEAT_ACK =
     (s\<lparr>lastHeartbeatAckTime := Some now\<rparr>, [Log Debug Pong], Returned)"
| "handle_op now s (INVALID_SESSION d) = (if d then resume s else identify s)"
| "handle_op now s RECONNECT = reconnect now s"
| "handle_op now s (DISPATCH ev) = onDispatch now s ev"
| "handle_op now s OTHER_OP = (s, [], Returned)"

text \<open>The \<^verbatim>\<open>catch\<close> of \<^verbatim>\<open>onMessage\<close>: an exception is logged and the handler returns.\<close>

definition catch_log :: "result \<Rightarrow> result" where
  "catch_log r =
     (case r of
        (s, tr, Threw e) \<Rightarrow> (s, tr @ [Log Error FailedToHandleMessage], Returned)
      | _ \<Rightarrow> r)"

text \<open>
  \<^verbatim>\<open>onMessage(data)\<close>; \<open>data\<close> is the frame \<^verbatim>\<open>JSON.parse\<close> returns, \<open>None\<close> when it throws.
\<close>

definition onMessage :: "nat \<Rightarrow> sys \<Rightarrow> payload option \<Rightarrow> result" where
  "onMessage now s data =
     (case data of
        None \<Rightarrow> (s, [Log Error FailedToHandleMessage], Returned)
      | Some p \<Rightarrow>
         let s1 = (if truthy_int (payload_s p) then s\<lparr>sequence := payload_s p\<rparr> else s)
         in catch_log (handle_op now s1 (payload_op p)))"

section \<open>Example values\<close>

text \<open>
  Two responses of the REST endpoint as \<^verbatim>\<open>request\<close> returns them (the response object of
  the HTTP library, which has no \<^verbatim>\<open>timeTaken\<close>): a rate limit with \<^verbatim>\<open>retry_after = 500\<close>,
  and the confirmation that a code was applied.
\<close>

definition rate_limited :: response where
  "rate_limited =
     \<lparr>statusCode = 429,
      body = Some \<lparr>retry_after = Some 500, code = Undefined,
                   message = Str ''You are being rate limited.''\<rparr>,
      timeTaken = None\<rparr>"

definition applied :: "string \<Rightarrow> response" where
  "applied v =
     \<lparr>statusCode = 200,
      body = Some \<lparr>retry_after = None, code = Str v, message = Undefined\<rparr>,
      timeTaken = None\<rparr>"

text \<open>
  States of a client: a retry ceiling of three and a cool-down of a minute; one claim
  target with rotation enabled, before and after a first successful claim; a watch set
  holding the guild \<open>g1\<close> with alias \<open>abc\<close>, first with a foreign claim target, then with
  \<open>g1\<close> itself as the claim target and \<^verbatim>\<open>config.ignoreHostGuilds\<close> set; the run of a new
  client whose socket is created at the clock reading 50 and opens at 100, whose session
  is established by \<^verbatim>\<open>READY\<close> at 500 and whose heartbeat is acknowledged at 1000; a
  stored sequence number 5.
\<close>

definition limited :: sys where
  "limited = (fresh ''tok'' [Some ''host''])
               \<lparr>config_retries := 3, config_sameGuildSnipeTimeout := 60000\<rparr>"



definition one :: guild where
  "one = \<lparr>id' = ''g1'', name = ''One'', vanity_url_code = VStr ''abc''\<rparr>"

definition watching :: sys where
  "watching = (fresh ''tok'' [Some ''host''])\<lparr>guilds := Some [''g1'' \<mapsto> one]\<rparr>"

definition hosting :: sys where
  "hosting = (fresh ''tok'' [Some ''g1''])
               \<lparr>guilds := Some [''g1'' \<mapsto> one], config_ignoreHostGuilds := True\<rparr>"





definition sequenced :: sys where
  "sequenced = (fresh ''tok'' [Some ''host''])\<lparr>sequence := Some 5\<rparr>"

section \<open>The claim race\<close>

text \<open>
  C8. When \<^verbatim>\<open>snipe\<close> is called and no claim target remains available (the active pool is
  empty and rotation is disabled, or rotation is enabled and both the active pool and the
  rotated-back queue are empty), it logs the attempt and the warning and ends the
  process with exit code 0, whatever the candidate, the try counter and the responses;
  no request is issued and the state is untouched.
\<close>

theorem snipe_no_targets_exits:
  assumes "(pool s = [] \<and> \<not> config_rotateGuilds s) \<or>
           (config_rotateGuilds s \<and> pool s = [] \<and> rotated s = [])"
  shows "snipe now s vanity ident tries resps =
           (s, [Log Info (AttemptingToSnipe vanity), Log Warn NoMoreGuilds], Exited 0)"
  using assms by (subst snipe.simps) (auto simp: pool_def rotated_def)

theorem snipe_no_targets_exits_witness:
  "pool (fresh ''tok'' []) = [] \<and> \<not> config_rotateGuilds (fresh ''tok'' []) \<and>
   snipe 1000 (fresh ''tok'' []) (VStr ''abc'') ''g9'' 0 [] =
     (fresh ''tok'' [],
      [Log Info (AttemptingToSnipe (VStr ''abc'')), Log Warn NoMoreGuilds], Exited 0)"
  using snipe_no_targets_exits [of "fresh ''tok'' []" 1000 "VStr ''abc''" "''g9''" 0 "[]"]
  by (simp add: pool_def fresh_def)

text \<open>
  A rate-limited response to a call whose try counter does not exceed the ceiling, as
  that of every call with the default counter 0 and a ceiling that is not negative: one
  request, one sleep, and the attempt is abandoned. The remaining responses are not read.
\<close>

lemma snipe_never_retries:
  assumes "tries \<le> config_retries s"
      and "heap s (active s) \<noteq> []"
      and "body data = Some js" "statusCode data = 429" "retry_after js = Some n" "n \<noteq> 0"
  shows "snipe now s vanity ident tries (data # rest) =
           (s\<lparr>config_guilds := active s\<rparr>,
            [Log Info (AttemptingToSnipe vanity)] @
            (if heap s (config_guilds s) = [] \<and> config_rotateGuilds s
             then [Log Info RotatingGuilds] else []) @
            [Request (first (heap s (active s))) vanity (token s),
             Log Warn (Ratelimited n vanity), Sleep n,
             Log Info (FailedSniping vanity (config_retries s))],
            Returned)"
  using assms
  by (subst snipe.simps) (auto simp: active_def truthy_int_def Let_def split: if_splits)

text \<open>
  C1. The claim asks for a retry with an incremented try counter after the sleep, up to
  the ceiling \<^verbatim>\<open>config.retries\<close>. The code tests \<^verbatim>\<open>config.retries < tries\<close>: with a ceiling
  of three and the try counter at its default 0, a rate-limited response with
  \<^verbatim>\<open>retry_after = 500\<close> is followed by one sleep of 500 ms and the message that sniping
  failed after 3 attempts. One request was issued; the response that would have
  applied the code is never asked for.
\<close>

theorem snipe_rate_limited_gives_up_at_once:
  "snipe 1000 limited (VStr ''abc'') ''g9'' 0 [rate_limited, applied ''abc''] =
     (limited,
      [Log Info (AttemptingToSnipe (VStr ''abc'')),
       Request (Some ''host'') (VStr ''abc'') ''tok'',
       Log Warn (Ratelimited 500 (VStr ''abc'')),
       Sleep 500,
       Log Info (FailedSniping (VStr ''abc'') 3)],
      Returned)"
  by (simp add: snipe.simps limited_def fresh_def rate_limited_def truthy_int_def
        first_def Let_def)

text \<open>
  A call that returns after a response that is not a rate limit (the claim succeeded,
  or it failed for another reason) has set the cool-down of the origin resource to the
  clock reading plus \<^verbatim>\<open>config.sameGuildSnipeTimeout\<close>.
\<close>

lemma snipe_sets_cooldown:
  assumes run: "snipe now s vanity ident tries (data # rest) = (s', tr, Returned)"
      and "body data = Some js" "\<not> (statusCode data = 429 \<and> truthy_int (retry_after js))"
  shows "sameGuildIntervals s' ident = Some (now + config_sameGuildSnipeTimeout s)"
  using assms
  by (subst (asm) snipe.simps)
     (auto simp: Let_def split: if_splits option.splits prod.splits)

text \<open>
  C4. The claim asks for the cool-down of the origin resource to be set after every
  attempt that issued the request, rate-limit abandonment included. The code returns
  from the rate-limit branch before it reaches the cool-down: after the abandoned
  attempt for the resource \<open>g9\<close> the request has been issued, the call has returned and
  the cool-down map has no entry for \<open>g9\<close>.
\<close>

theorem snipe_rate_limited_sets_no_cooldown:
  "Request (Some ''host'') (VStr ''abc'') ''tok''
     \<in> set (fst (snd (snipe 1000 limited (VStr ''abc'') ''g9'' 0 [rate_limited]))) \<and>
   snd (snd (snipe 1000 limited (VStr ''abc'') ''g9'' 0 [rate_limited])) = Returned \<and>
   sameGuildIntervals (fst (snipe 1000 limited (VStr ''abc'') ''g9'' 0 [rate_limited])) ''g9''
     = None"
  by (simp add: snipe.simps limited_def fresh_def rate_limited_def truthy_int_def
        first_def Let_def)

subsection \<open>Rotation of the claim targets\<close>



text \<open>
  A successful response without \<^verbatim>\<open>timeTaken\<close>: the log line after the shift and the push
  throws, so the sink is sent nothing and the cool-down is not set.
\<close>

lemma snipe_success_throws:
  assumes run: "snipe now s vanity ident tries (data # rest) = (s', tr, c)"
      and hd: "heap s (active s) = x # xs"
      and ok: "succeeds vanity data"
      and tt: "timeTaken data = None"
  shows "c = Threw TypeError \<and> (\<forall>u m. WebhookSend u m \<notin> set tr) \<and>
         sameGuildIntervals s' = sameGuildIntervals s"
  using assms
  by (subst (asm) snipe.simps)
     (auto simp: succeeds_def active_def shift_def Let_def
           split: option.splits list.splits if_splits)





section \<open>The watch set\<close>

text \<open>
  C2. For a resource the watch set already holds, a \<^verbatim>\<open>GUILD_UPDATE\<close> whose alias differs
  from the stored one, with neither the ignore-list nor a cool-down entry whose expiry is
  still in the future in the way, calls \<^verbatim>\<open>snipe\<close> exactly once, with the alias that was
  stored (the vacated one) as candidate and the resource id as origin.
\<close>

theorem update_snipes_previous_alias:
  assumes tracked: "guilds s = Some m" "m (id' g) = Some p"
      and changed: "vanity_url_code p \<noteq> vanity_url_code g"
      and not_ignored: "\<not> (config_ignoreHostGuilds s \<and> Some (id' g) \<in> set (pool s))"
      and not_cooling: "\<not> (\<exists>e. sameGuildIntervals s (id' g) = Some e \<and> now < e)"
  shows "snipe_calls (fst (snd (onDispatch now s (GUILD_UPDATE g)))) =
           [(vanity_url_code p, id' g)]"
  using assms
  by (cases "sameGuildIntervals s (id' g)")
     (auto simp: Let_def pool_def truthy_nat_def)

theorem update_snipes_previous_alias_witness:
  "watched watching ''g1'' = Some one \<and>
   vanity_url_code one = VStr ''abc'' \<and>
   snipe_calls (fst (snd (onDispatch 1000 watching
      (GUILD_UPDATE (one\<lparr>vanity_url_code := VStr ''xyz''\<rparr>))))) = [(VStr ''abc'', ''g1'')]"
  using update_snipes_previous_alias
          [of watching "[''g1'' \<mapsto> one]" "one\<lparr>vanity_url_code := VStr ''xyz''\<rparr>" one 1000]
  by (simp add: watching_def fresh_def watched_def one_def pool_def)

text \<open>
  \<^verbatim>\<open>READY\<close> builds a watch set whose entries are stored under their ids and have an
  alias. Every event keeps the entries under their ids, and every event but
  \<^verbatim>\<open>GUILD_UPDATE\<close> keeps entries without an alias out.
\<close>

lemma ready_guilds_keyed:
  assumes "\<forall>k g. m k = Some g \<longrightarrow> id' g = k \<and> truthy_code (vanity_url_code g)"
      and "ready_guilds gs m k = Some g"
  shows "id' g = k \<and> truthy_code (vanity_url_code g)"
  using assms
proof (induction gs arbitrary: m)
  case Nil
  then show ?case by simp
next
  case (Cons a gs)
  let ?m = "if \<not> truthy_code (vanity_url_code a) then m else m(id' a \<mapsto> a)"
  have "\<forall>k g. ?m k = Some g \<longrightarrow> id' g = k \<and> truthy_code (vanity_url_code g)"
    using Cons.prems(1) by auto
  moreover have "ready_guilds gs ?m k = Some g"
    using Cons.prems(2) by simp
  ultimately show ?case by (rule Cons.IH)
qed

lemma ready_establishes:
  "keyed (fst (onDispatch now s (READY sid u gs))) \<and>
   aliased (fst (onDispatch now s (READY sid u gs)))"
  using ready_guilds_keyed [of Map.empty gs]
  by (auto simp: keyed_def aliased_def watched_def Let_def)

lemma onDispatch_keyed:
  "keyed s \<Longrightarrow> keyed (fst (onDispatch now s ev))"
  using ready_establishes [of now s]
  by (cases ev)
     (auto simp: keyed_def watched_def Let_def split: option.splits if_splits)

lemma onDispatch_aliased:
  assumes "aliased s" and "\<forall>g. ev \<noteq> GUILD_UPDATE g"
  shows "aliased (fst (onDispatch now s ev))"
  using assms ready_establishes [of now s]
  by (cases ev)
     (auto simp: aliased_def watched_def Let_def split: option.splits if_splits)

text \<open>
  C3. The claim asks every watch-set operation to keep resources without an alias out
  of the watch set. \<^verbatim>\<open>READY\<close> and \<^verbatim>\<open>GUILD_CREATE\<close> test the alias before they store a
  resource; \<^verbatim>\<open>GUILD_UPDATE\<close> stores the resource it receives without a test. After an
  update that takes the alias of the watched guild \<open>g1\<close> away, the watch set holds \<open>g1\<close>
  with no alias.
\<close>

theorem update_stores_resource_without_alias:
  "watched watching ''g1'' = Some one \<and>
   watched (fst (onDispatch 1000 watching (GUILD_UPDATE (one\<lparr>vanity_url_code := VNull\<rparr>)))) ''g1''
     = Some (one\<lparr>vanity_url_code := VNull\<rparr>)"
  by (simp add: watching_def fresh_def watched_def one_def Let_def)

text \<open>
  C6, as amended. A change event for a watched resource is its \<^verbatim>\<open>GUILD_DELETE\<close> or a
  \<^verbatim>\<open>GUILD_UPDATE\<close> with another alias. While the cool-down entry of the resource has its
  expiry in the future, the event calls \<^verbatim>\<open>snipe\<close> not at all, leaves the cool-down map as
  it is and ends with a log line (the time-out warning, or the ignore-list notice). When
  there is no entry or its expiry is not in the future, and the ignore-list does not
  suppress the event, the event removes the entry and calls \<^verbatim>\<open>snipe\<close> once, with the
  stored alias.
\<close>

theorem cooldown_gate:
  assumes tracked: "guilds s = Some m" "m gid = Some p" "id' p = gid"
      and change: "ev = GUILD_DELETE gid \<or>
                   (\<exists>g. ev = GUILD_UPDATE g \<and> id' g = gid \<and>
                        vanity_url_code g \<noteq> vanity_url_code p)"
      and run: "onDispatch now s ev = (s', tr, c)"
  shows "(\<forall>e. sameGuildIntervals s gid = Some e \<and> now < e \<longrightarrow>
            snipe_calls tr = [] \<and> sameGuildIntervals s' = sameGuildIntervals s \<and>
            (\<exists>n. last tr = Log Warn (OnTimeout n (e - now)) \<or>
                 last tr = Log Info (IgnoringVanityChange n) \<or>
                 last tr = Log Info (IgnoringGuildDeletion n))) \<and>
         (\<not> (\<exists>e. sameGuildIntervals s gid = Some e \<and> now < e) \<and>
          \<not> (config_ignoreHostGuilds s \<and> Some gid \<in> set (pool s)) \<longrightarrow>
            snipe_calls tr = [(vanity_url_code p, gid)] \<and> sameGuildIntervals s' gid = None)"
  using assms
  by (cases "sameGuildIntervals s gid")
     (auto simp: Let_def pool_def truthy_nat_def split: if_splits)

theorem cooldown_gate_witness:
  "watched watching ''g1'' = Some one \<and> sameGuildIntervals watching ''g1'' = None \<and>
   snipe_calls (fst (snd (onDispatch 1000 watching (GUILD_DELETE ''g1'')))) = [(VStr ''abc'', ''g1'')] \<and>
   sameGuildIntervals (watching\<lparr>sameGuildIntervals := [''g1'' \<mapsto> 5000]\<rparr>) ''g1'' = Some 5000 \<and>
   snipe_calls (fst (snd (onDispatch 1000 (watching\<lparr>sameGuildIntervals := [''g1'' \<mapsto> 5000]\<rparr>)
      (GUILD_DELETE ''g1'')))) = []"
proof -
  let ?w = "watching\<lparr>sameGuildIntervals := [''g1'' \<mapsto> 5000]\<rparr>"
  let ?a = "onDispatch 1000 watching (GUILD_DELETE ''g1'')"
  let ?b = "onDispatch 1000 ?w (GUILD_DELETE ''g1'')"
  have g: "guilds watching = Some [''g1'' \<mapsto> one]" "guilds ?w = Some [''g1'' \<mapsto> one]"
    by (simp_all add: watching_def)
  have m: "[''g1'' \<mapsto> one] ''g1'' = Some one" by simp
  have i: "id' one = ''g1''" by (simp add: one_def)
  have ra: "?a = (fst ?a, fst (snd ?a), snd (snd ?a))" by simp
  have rb: "?b = (fst ?b, fst (snd ?b), snd (snd ?b))" by simp
  note a = cooldown_gate [OF g(1) m i disjI1 [OF refl] ra]
  note b = cooldown_gate [OF g(2) m i disjI1 [OF refl] rb]
  have c: "sameGuildIntervals watching ''g1'' = None" "sameGuildIntervals ?w ''g1'' = Some 5000"
          "\<not> config_ignoreHostGuilds watching" "vanity_url_code one = VStr ''abc''"
    by (simp_all add: watching_def fresh_def one_def)
  have w: "watched watching ''g1'' = Some one"
    by (simp add: watched_def watching_def)
  show ?thesis using a b c w by simp
qed

text \<open>
  The claim as stated fails where the ignore-list applies: \<open>g1\<close> is watched, has no
  cool-down entry and changes its alias, but it is one of the claim targets and
  \<^verbatim>\<open>config.ignoreHostGuilds\<close> is set, so \<^verbatim>\<open>snipe\<close> is not called.
\<close>

theorem cooldown_gate_counterexample:
  "watched hosting ''g1'' = Some one \<and> sameGuildIntervals hosting ''g1'' = None \<and>
   vanity_url_code one \<noteq> VStr ''xyz'' \<and>
   snipe_calls (fst (snd (onDispatch 1000 hosting
      (GUILD_UPDATE (one\<lparr>vanity_url_code := VStr ''xyz''\<rparr>))))) = []"
  by (simp add: hosting_def fresh_def watched_def one_def Let_def)

text \<open>
  C10. A \<^verbatim>\<open>GUILD_DELETE\<close> for a guild id that the watch set does not hold changes nothing:
  the state after it is the state before it (watch set, cool-down map and claim pool
  included), and it has no effect at all, so \<^verbatim>\<open>snipe\<close> is not called.
\<close>

theorem delete_untracked_noop:
  assumes "watched s guild_id = None"
  shows "fst (onDispatch now s (GUILD_DELETE guild_id)) = s \<and>
         fst (snd (onDispatch now s (GUILD_DELETE guild_id))) = []"
  using assms by (auto simp: watched_def split: option.splits)

theorem delete_untracked_noop_witness:
  "watched watching ''g2'' = None \<and>
   fst (onDispatch 1000 watching (GUILD_DELETE ''g2'')) = watching \<and>
   fst (snd (onDispatch 1000 watching (GUILD_DELETE ''g2''))) = []"
  using delete_untracked_noop [of watching "''g2''" 1000]
  by (simp add: watching_def fresh_def watched_def)

section \<open>Resume eligibility\<close>

lemma fst_catch_log: "fst (catch_log r) = fst r"
  by (auto simp: catch_log_def split: prod.splits completion.splits)

text \<open>
  \<^verbatim>\<open>lastHeartbeatAckTime\<close> is written in two places, the \<^verbatim>\<open>HEARTBEAT_ACK\<close> case of
  \<^verbatim>\<open>onMessage\<close> and \<^verbatim>\<open>onOpen\<close>, both times with a reading of \<^verbatim>\<open>Date.now()\<close>. It is unset
  in a new client, so with clock readings after the epoch it never holds 0.
\<close>

lemma handle_op_ack_time:
  "lastHeartbeatAckTime (fst (handle_op now s op)) =
     (if op = HEARTBEAT_ACK then Some now else lastHeartbeatAckTime s)"
proof (cases op)
  case (DISPATCH ev)
  then show ?thesis
    by (cases ev) (auto simp: Let_def split: option.splits if_splits)
qed (auto simp: and_then_def after_def clearHelloTimeout_def onHello_def
       startHeartbeat_def stopHeartbeat_def resume_def identify_def broadcast_def reconnect_def
       destroy_def createSocket_def Let_def split: option.splits)

lemma onMessage_clock:
  assumes "0 < now" and "lastHeartbeatAckTime s \<noteq> Some 0"
  shows "lastHeartbeatAckTime (fst (onMessage now s d)) \<noteq> Some 0"
  using assms
  by (cases d) (auto simp: onMessage_def fst_catch_log handle_op_ack_time Let_def)

lemma onOpen_clock:
  assumes "0 < now" and "lastHeartbeatAckTime s \<noteq> Some 0"
  shows "lastHeartbeatAckTime (fst (onOpen threshold now s)) \<noteq> Some 0"
  using assms
  by (auto simp: onOpen_def and_then_def after_def resume_def identify_def broadcast_def Let_def
           split: option.splits)

lemma snipe_ack_time:
  "snipe now s vanity ident tries resps = (s', tr, c) \<Longrightarrow>
   lastHeartbeatAckTime s' = lastHeartbeatAckTime s"
proof (induction resps arbitrary: s s' tr c)
  case Nil
  then show ?case
    by (subst (asm) snipe.simps) (auto simp: Let_def split: if_splits)
next
  case (Cons data rest)
  obtain s2 tr2 c2 where r1: "snipe now s vanity ident tries rest = (s2, tr2, c2)"
    by (metis prod_cases3)
  obtain s3 tr3 c3 where
    r2: "snipe now (s\<lparr>config_guilds := rotatedGuilds s\<rparr>) vanity ident tries rest = (s3, tr3, c3)"
    by (metis prod_cases3)
  note ih1 = Cons.IH [OF r1]
  note ih2 = Cons.IH [OF r2]
  show ?case
    using Cons.prems(1) ih1 ih2 r1 r2
    by (subst (asm) snipe.simps)
       (auto simp: Let_def after_def shift_def split: option.splits if_splits list.splits)
qed

lemma fresh_clock: "lastHeartbeatAckTime (fresh tok gs) \<noteq> Some 0"
  by (simp add: fresh_def)



section \<open>Inbound frames\<close>

text \<open>No handler but \<^verbatim>\<open>identify\<close> writes the sequence number.\<close>

lemma handle_op_sequence:
  assumes "op \<noteq> INVALID_SESSION False"
  shows "sequence (fst (handle_op now s op)) = sequence s"
proof (cases op)
  case (DISPATCH ev)
  then show ?thesis
    by (cases ev) (auto simp: Let_def split: option.splits if_splits)
qed (use assms in \<open>auto simp: and_then_def after_def clearHelloTimeout_def onHello_def
       startHeartbeat_def stopHeartbeat_def resume_def broadcast_def reconnect_def destroy_def
       createSocket_def Let_def split: option.splits\<close>)

text \<open>
  C9, as amended. For every inbound frame that carries a sequence number other than 0,
  whatever its opcode, \<^verbatim>\<open>onMessage\<close> is the opcode's handler run on the state in which the
  stored sequence number already is the carried one. So the stored number is the
  carried one afterwards for every opcode whose handler does not reset it (all but a
  non-resumable \<^verbatim>\<open>INVALID_SESSION\<close>, which identifies anew), and the \<^verbatim>\<open>RESUME\<close> frame
  that a resumable \<^verbatim>\<open>INVALID_SESSION\<close> sends on an open socket carries it.
\<close>

theorem onMessage_sequence_first:
  assumes "payload_s p = Some n" and "n \<noteq> 0"
  shows "onMessage now s (Some p) =
           catch_log (handle_op now (s\<lparr>sequence := Some n\<rparr>) (payload_op p)) \<and>
         (payload_op p \<noteq> INVALID_SESSION False \<longrightarrow>
            sequence (fst (onMessage now s (Some p))) = Some n) \<and>
         (payload_op p = INVALID_SESSION True \<and> ws s = Some WS_OPEN \<longrightarrow>
            Send (SentResume (token s) (sessionId s) (Some n))
              \<in> set (fst (snd (onMessage now s (Some p)))))"
proof -
  have eq: "onMessage now s (Some p) =
              catch_log (handle_op now (s\<lparr>sequence := Some n\<rparr>) (payload_op p))"
    using assms by (simp add: onMessage_def truthy_int_def)
  have keep: "sequence (fst (onMessage now s (Some p))) = Some n"
    if "payload_op p \<noteq> INVALID_SESSION False"
    using that by (simp add: eq fst_catch_log handle_op_sequence)
  have sent: "Send (SentResume (token s) (sessionId s) (Some n))
                \<in> set (fst (snd (onMessage now s (Some p))))"
    if "payload_op p = INVALID_SESSION True" and "ws s = Some WS_OPEN"
    using that by (simp add: eq resume_def broadcast_def after_def catch_log_def)
  show ?thesis using eq keep sent by blast
qed

theorem onMessage_sequence_first_witness:
  "payload_s \<lparr>payload_s = Some 7, payload_op = HEARTBEAT_ACK\<rparr> = Some 7 \<and> (7::int) \<noteq> 0 \<and>
   sequence sequenced = Some 5 \<and>
   sequence (fst (onMessage 1000 sequenced
      (Some \<lparr>payload_s = Some 7, payload_op = HEARTBEAT_ACK\<rparr>))) = Some 7"
  using onMessage_sequence_first
          [of "\<lparr>payload_s = Some 7, payload_op = HEARTBEAT_ACK\<rparr>" 7 1000 sequenced]
  by (simp add: catch_log_def sequenced_def fresh_def)

text \<open>
  The claim as stated fails for a frame that carries the sequence number 0: the test
  \<^verbatim>\<open>if (payload.s)\<close> is false for it and the stored number stays 5.
\<close>

theorem onMessage_sequence_counterexample:
  "payload_s \<lparr>payload_s = Some 0, payload_op = HEARTBEAT_ACK\<rparr> = Some 0 \<and>
   sequence sequenced = Some 5 \<and>
   sequence (fst (onMessage 1000 sequenced
      (Some \<lparr>payload_s = Some 0, payload_op = HEARTBEAT_ACK\<rparr>))) = Some 5"
  by (simp add: onMessage_def sequenced_def fresh_def truthy_int_def catch_log_def)

end
